theory Spec2Isabelle
  imports Main
begin

section \<open>JavaScript values\<close>

text \<open>
  Values that travel through the RPC transport are JSON-like trees. \<open>JUndefined\<close> also
  stands for an absent property. Numbers are modelled as integers (the event counts the
  client sends); \<open>NaN\<close> and fractions are outside the model.
\<close>

datatype js =
    JUndefined
  | JNull
  | JBool bool
  | JNum int
  | JStr string
  | JArr "js list"
  | JObj "(string \<times> js) list"

text \<open>
  What a \<open>throw\<close> or a rejected promise carries: the \<open>TypeError\<close> the engine raises when a
  property of \<open>undefined\<close> or \<open>null\<close> is read or an object cannot be converted to a string,
  the \<open>RangeError\<close> it raises when the call stack has no room for a call, or a value thrown
  by a collaborator (node-fetch, \<open>JSON.parse\<close>, the generated client, \<open>buildClientSchema\<close>).
\<close>

datatype exn = TypeError | RangeError | Thrown js

text \<open>ToBoolean, as used by \<open>!x\<close>, \<open>if (x)\<close> and \<open>x || y\<close>.\<close>

fun truthy :: "js \<Rightarrow> bool" where
  "truthy JUndefined = False"
| "truthy JNull = False"
| "truthy (JBool b) = b"
| "truthy (JNum n) = (n \<noteq> 0)"
| "truthy (JStr s) = (s \<noteq> [])"
| "truthy (JArr xs) = True"
| "truthy (JObj fs) = True"

text \<open>\<open>a || b\<close> on values without side effects.\<close>

definition js_or :: "js \<Rightarrow> js \<Rightarrow> js" where
  "js_or a b = (if truthy a then a else b)"

text \<open>
  \<open>v.k\<close> for the property names this module reads (\<open>data\<close>, \<open>errors\<close>, \<open>oneGraph\<close>,
  \<open>session\<close>, \<open>events\<close>, \<open>appId\<close>, ...): none of them is a built-in property of a string, number,
  boolean or array, so only the own properties of an object can hold a value.
\<close>

fun js_get :: "js \<Rightarrow> string \<Rightarrow> exn + js" where
  "js_get JUndefined k = Inl TypeError"
| "js_get JNull k = Inl TypeError"
| "js_get (JObj fs) k = Inr (case map_of fs k of Some x \<Rightarrow> x | None \<Rightarrow> JUndefined)"
| "js_get v k = Inr JUndefined"

text \<open>\<open>v?.k\<close>: \<open>undefined\<close> when \<open>v\<close> is \<open>undefined\<close> or \<open>null\<close>, never a throw.\<close>

definition opt_chain :: "js \<Rightarrow> string \<Rightarrow> js" where
  "opt_chain v k = (case js_get v k of Inl e \<Rightarrow> JUndefined | Inr x \<Rightarrow> x)"

text \<open>\<open>v?.k1?.k2?. ... ?.kn\<close>\<close>

definition opt_path :: "js \<Rightarrow> string list \<Rightarrow> js" where
  "opt_path v ks = foldl opt_chain v ks"

section \<open>Events as object graphs\<close>

text \<open>
  \<open>friendlyEventName\<close> takes any \<open>Record<string, any>\<close>, and nothing keeps an object from being
  its own payload. Events are therefore modelled as references into a heap of plain
  objects (prototype \<open>Object.prototype\<close>, string keys, no accessors), so that shared and
  cyclic payloads exist in the model. Every address holds an object (an unused one holds
  \<open>{}\<close>), so no reference dangles. A property holds a primitive or a reference to such an
  object; functions, symbols and arrays are outside the model.

  A Number is kept as the text that Number-to-string prints for it (\<open>42\<close>, \<open>0.5\<close>,
  \<open>1e+21\<close>, \<open>NaN\<close>): \<open>friendlyEventName\<close> does nothing with a number but print it and
  compare it with string literals, which it never equals.
\<close>

datatype jsval =
    VUndefined
  | VNull
  | VBool bool
  | VNum string
  | VStr string
  | VRef nat

type_synonym heap = "nat \<Rightarrow> (string \<times> jsval) list"

text \<open>
  ToString as a template literal applies it: \<open>`${v}`\<close>. For an object the engine calls
  its \<open>toString\<close>, then its \<open>valueOf\<close>, and takes the first primitive result. A plain
  object without an own \<open>toString\<close> inherits the one that prints \<open>[object Object]\<close>. An
  own \<open>toString\<close> property hides it; in this model its value is never a function, the
  inherited or own \<open>valueOf\<close> yields no primitive either, and the conversion throws a
  \<open>TypeError\<close>.
\<close>

fun to_string :: "heap \<Rightarrow> jsval \<Rightarrow> exn + string" where
  "to_string h VUndefined = Inr ''undefined''"
| "to_string h VNull = Inr ''null''"
| "to_string h (VBool b) = Inr (if b then ''true'' else ''false'')"
| "to_string h (VNum text) = Inr text"
| "to_string h (VStr s) = Inr s"
| "to_string h (VRef a) =
     (case map_of (h a) ''toString'' of
        None \<Rightarrow> Inr ''[object Object]''
      | Some v \<Rightarrow> Inl TypeError)"

text \<open>
  \<open>const { __typename, payload } = event\<close>: a \<open>TypeError\<close> when \<open>event\<close> is \<open>undefined\<close> or
  \<open>null\<close>; the two properties of the object otherwise (\<open>undefined\<close> when absent, and always
  \<open>undefined\<close> on a primitive).
\<close>

definition own_property :: "(string \<times> jsval) list \<Rightarrow> string \<Rightarrow> jsval" where
  "own_property fs k = (case map_of fs k of Some x \<Rightarrow> x | None \<Rightarrow> VUndefined)"

fun destructure_event :: "heap \<Rightarrow> jsval \<Rightarrow> exn + (jsval \<times> jsval)" where
  "destructure_event h VUndefined = Inl TypeError"
| "destructure_event h VNull = Inl TypeError"
| "destructure_event h (VRef a) =
     Inr (own_property (h a) ''__typename'', own_property (h a) ''payload'')"
| "destructure_event h v = Inr (VUndefined, VUndefined)"

text \<open>
  \<open>friendlyEventName\<close>: the \<open>switch\<close> compares \<open>__typename\<close> with \<open>===\<close>, in the order of the
  source. The first case calls the function on the payload, with no bound on the depth.
  This definition is the function on a call stack without bound: the result \<open>None\<close> stands
  for a call that never returns.
\<close>

partial_function (option) friendlyEventName :: "heap \<Rightarrow> jsval \<Rightarrow> (exn + string) option" where
  "friendlyEventName h event =
     (case destructure_event h event of
        Inl e \<Rightarrow> Some (Inl e)
      | Inr tp \<Rightarrow>
          if fst tp = VStr ''OneGraphNetlifyCliSessionTestEvent'' then
            friendlyEventName h (snd tp)
          else if fst tp = VStr ''OneGraphNetlifyCliSessionGenerateHandlerEvent'' then
            Some (Inr ''Generate handler as Netlify function '')
          else if fst tp = VStr ''OneGraphNetlifyCliSessionPersistedLibraryUpdatedEvent'' then
            Some (Inr ''Sync Netlify Graph operations library'')
          else
            (case to_string h (fst tp) of
               Inl e \<Rightarrow> Some (Inl e)
             | Inr typename \<Rightarrow> Some (Inr (''Unrecognized event ('' @ typename @ '')''))))"

declare friendlyEventName.simps [code]

text \<open>
  The same function as an engine runs it, on a call stack of bounded size. \<open>frames\<close> is
  the number of nested activations of \<open>friendlyEventName\<close> the stack has room for when
  the function is called; a call that finds no room throws a \<open>RangeError\<close>, which nothing
  in the function catches. The conversions of the template literal run within the frame
  of their caller.
\<close>

fun friendlyEventName_on_stack :: "nat \<Rightarrow> heap \<Rightarrow> jsval \<Rightarrow> exn + string" where
  "friendlyEventName_on_stack 0 h event = Inl RangeError"
| "friendlyEventName_on_stack (Suc frames) h event =
     (case destructure_event h event of
        Inl e \<Rightarrow> Inl e
      | Inr tp \<Rightarrow>
          if fst tp = VStr ''OneGraphNetlifyCliSessionTestEvent'' then
            friendlyEventName_on_stack frames h (snd tp)
          else if fst tp = VStr ''OneGraphNetlifyCliSessionGenerateHandlerEvent'' then
            Inr ''Generate handler as Netlify function ''
          else if fst tp = VStr ''OneGraphNetlifyCliSessionPersistedLibraryUpdatedEvent'' then
            Inr ''Sync Netlify Graph operations library''
          else
            (case to_string h (fst tp) of
               Inl e \<Rightarrow> Inl e
             | Inr typename \<Rightarrow> Inr (''Unrecognized event ('' @ typename @ '')'')))"

section \<open>Effects: the RPC transport and the logging sink\<close>

text \<open>
  A request as the generated client receives it: the name of the generated function that
  is called, its variables object and its options object (\<open>undefined\<close> when the call passes
  none).
\<close>

record rpc_request =
  operation :: string
  variables :: js
  options :: js

text \<open>
  Modelled from the spec: the module \<open>./generatedOneGraphClient\<close>, which defines the
  generated client, is missing. The specification gives its contract: every query and
  mutation goes through one executor that returns an object \<open>{data, errors}\<close>. A field
  that is absent is \<open>JUndefined\<close>.
\<close>

record envelope =
  data :: js
  errors :: js

text \<open>The envelope as a value, for the places where the code tests or returns it whole.\<close>

definition envelope_value :: "envelope \<Rightarrow> js" where
  "envelope_value r = JObj [(''data'', data r), (''errors'', errors r)]"

text \<open>
  The generated client is a parameter of every operation: for each request its promise
  either rejects (\<open>Inl\<close>) or resolves to an envelope. No operation issues the same
  request twice, so a function of the request covers every combination of answers.
\<close>

type_synonym generated_client = "rpc_request \<Rightarrow> exn + envelope"

text \<open>
  Modelled from the spec: the module \<open>./internalConsole\<close>, which defines
  \<open>internalConsole\<close>, is missing; the specification describes a fire-and-forget sink
  that takes one entry per call and returns nothing.
\<close>

datatype console_entry = ConsoleError string | ConsoleLog string

text \<open>What an operation leaves behind: the requests it issued and the entries it logged.\<close>

record world =
  rpc_calls :: "rpc_request list"
  console :: "console_entry list"

text \<open>
  An \<open>async\<close> function: from the world before the call to its outcome (\<open>Inl\<close> when the
  promise rejects) and the world after.
\<close>

type_synonym 'a async = "world \<Rightarrow> (exn + 'a) \<times> world"

definition resolve :: "'a \<Rightarrow> 'a async" where
  "resolve x = (\<lambda>w. (Inr x, w))"

definition lift :: "exn + 'a \<Rightarrow> 'a async" where
  "lift r = (\<lambda>w. (r, w))"

text \<open>
  \<open>const x = await m; k(x)\<close>, outside any \<open>try\<close>: a rejection of \<open>m\<close> ends the function.
  With \<open>lift\<close> it also sequences a step that is not a promise but may throw.
\<close>

definition await :: "'a async \<Rightarrow> ('a \<Rightarrow> 'b async) \<Rightarrow> 'b async" where
  "await m k = (\<lambda>w. case m w of (Inl e, w') \<Rightarrow> (Inl e, w') | (Inr x, w') \<Rightarrow> k x w')"

text \<open>\<open>try { m } catch (error) { handler(error) }\<close>\<close>

definition try_catch :: "'a async \<Rightarrow> (exn \<Rightarrow> 'a async) \<Rightarrow> 'a async" where
  "try_catch m handler =
     (\<lambda>w. case m w of (Inl e, w') \<Rightarrow> handler e w' | (Inr x, w') \<Rightarrow> (Inr x, w'))"

definition call :: "generated_client \<Rightarrow> string \<Rightarrow> js \<Rightarrow> js \<Rightarrow> envelope async" where
  "call client name vars opts =
     (\<lambda>w. let request = \<lparr>operation = name, variables = vars, options = opts\<rparr>
          in (client request, w\<lparr>rpc_calls := rpc_calls w @ [request]\<rparr>))"

definition console_error :: "string \<Rightarrow> js async" where
  "console_error line = (\<lambda>w. (Inr JUndefined, w\<lparr>console := console w @ [ConsoleError line]\<rparr>))"

definition console_log :: "string \<Rightarrow> js async" where
  "console_log line = (\<lambda>w. (Inr JUndefined, w\<lparr>console := console w @ [ConsoleLog line]\<rparr>))"

section \<open>The client operations\<close>

definition ONEDASH_APP_ID :: string where
  "ONEDASH_APP_ID = ''0b066ba6-ed39-4db8-a497-ba0be34d5b2a''"

text \<open>\<open>xs.join(sep)\<close> on an array of strings.\<close>

fun join :: "string \<Rightarrow> string list \<Rightarrow> string" where
  "join sep [] = []"
| "join sep [x] = x"
| "join sep (x # y # ys) = x @ sep @ join sep (y # ys)"

definition schema_url :: "string \<Rightarrow> string list \<Rightarrow> string" where
  "schema_url appId enabledServices =
     ''https://serve.onegraph.com/schema?app_id='' @ appId @ ''&services='' @
     join '','' enabledServices"

text \<open>
  \<open>fetchOneGraphSchemaJson\<close>. The collaborators are parameters: \<open>fetch_text url\<close> is
  node-fetch's \<open>fetch(url, ...)\<close> followed by \<open>response.text()\<close>, \<open>JSON_parse\<close> is \<open>JSON.parse\<close>,
  and \<open>JSON_stringify error\<close> is the text that \<open>JSON.stringify(error, null, 2)\<close> contributes
  to the template literal. The \<open>catch\<close> block has no \<open>return\<close>, so the function resolves to
  \<open>undefined\<close> after it.
\<close>

definition fetchOneGraphSchemaJson ::
  "(string \<Rightarrow> exn + string) \<Rightarrow> (string \<Rightarrow> exn + js) \<Rightarrow> (exn \<Rightarrow> string) \<Rightarrow>
   string \<Rightarrow> string list \<Rightarrow> js async" where
  "fetchOneGraphSchemaJson fetch_text JSON_parse JSON_stringify appId enabledServices =
     (let url = schema_url appId enabledServices in
      try_catch
        (await (lift (fetch_text url)) (\<lambda>text. lift (JSON_parse text)))
        (\<lambda>error.
           await (console_error (''Error fetching schema: '' @ JSON_stringify error))
             (\<lambda>_. resolve JUndefined)))"

text \<open>\<open>fetchOneGraphSchema\<close>: \<open>result.data\<close> is a plain property read.\<close>

definition fetchOneGraphSchema ::
  "(string \<Rightarrow> exn + string) \<Rightarrow> (string \<Rightarrow> exn + js) \<Rightarrow> (exn \<Rightarrow> string) \<Rightarrow>
   (js \<Rightarrow> exn + 'schema) \<Rightarrow> string \<Rightarrow> string list \<Rightarrow> 'schema async" where
  "fetchOneGraphSchema fetch_text JSON_parse JSON_stringify buildClientSchema appId
     enabledServices =
     await (fetchOneGraphSchemaJson fetch_text JSON_parse JSON_stringify appId enabledServices)
       (\<lambda>result.
          await (lift (js_get result ''data''))
            (\<lambda>result_data.
               await (lift (buildClientSchema result_data))
                 (\<lambda>schema. resolve schema)))"

definition fetchPersistedQuery ::
  "generated_client \<Rightarrow> string \<Rightarrow> string \<Rightarrow> string \<Rightarrow> js async" where
  "fetchPersistedQuery client authToken appId docId =
     await (call client ''fetchPersistedQueryQuery''
              (JObj [(''nfToken'', JStr authToken), (''appId'', JStr appId),
                     (''id'', JStr docId)])
              (JObj [(''siteId'', JStr ONEDASH_APP_ID)]))
       (\<lambda>response.
          let persistedQuery = opt_path (data response) [''oneGraph'', ''persistedQuery'']
          in resolve persistedQuery)"

text \<open>
  \<open>fetchCliSession\<close>: the last argument is \<open>options.desiredEventCount\<close>, \<open>JUndefined\<close> when
  the caller omits it.
\<close>

definition fetchCliSession ::
  "generated_client \<Rightarrow> string \<Rightarrow> string \<Rightarrow> string \<Rightarrow> js \<Rightarrow> js async" where
  "fetchCliSession client appId authToken sessionId options_desiredEventCount =
     (let desiredEventCount = js_or options_desiredEventCount (JNum 1) in
      await (call client ''fetchCLISessionQuery''
               (JObj [(''nfToken'', JStr authToken), (''sessionId'', JStr sessionId),
                      (''first'', js_or desiredEventCount (JNum 1000))])
               (JObj [(''siteId'', JStr appId)]))
        (\<lambda>next.
           let session =
                 js_or (opt_path (data next) [''oneGraph'', ''netlifyCliSession'']) (JArr [])
           in resolve (JObj [(''session'', session), (''errors'', errors next)])))"

definition fetchCliSessionEvents ::
  "generated_client \<Rightarrow> string \<Rightarrow> string \<Rightarrow> string \<Rightarrow> js async" where
  "fetchCliSessionEvents client appId authToken sessionId =
     (let desiredEventCount = JNum 1000 in
      await (fetchCliSession client appId authToken sessionId desiredEventCount)
        (\<lambda>next.
           await (lift (js_get next ''errors''))
             (\<lambda>next_errors.
                if truthy next_errors then resolve next
                else
                  await (lift (js_get next ''session''))
                    (\<lambda>next_session.
                       let events = js_or (opt_chain next_session ''events'') (JArr [])
                       in resolve (JObj [(''events'', events)])))))"

definition createCLISession ::
  "generated_client \<Rightarrow> string \<Rightarrow> string \<Rightarrow> string \<Rightarrow> js \<Rightarrow> js async" where
  "createCLISession client netlifyToken appId name metadata =
     (let payload = JObj [(''nfToken'', JStr netlifyToken), (''appId'', JStr appId),
                          (''name'', JStr name), (''metadata'', metadata)] in
      await (call client ''executeCreateCLISessionMutation'' payload
               (JObj [(''siteId'', JStr appId)]))
        (\<lambda>result.
           let session =
                 opt_path (data result) [''oneGraph'', ''createNetlifyCliSession'', ''session'']
           in resolve session))"

definition updateCLISessionMetadata ::
  "generated_client \<Rightarrow> string \<Rightarrow> string \<Rightarrow> string \<Rightarrow> js \<Rightarrow> js async" where
  "updateCLISessionMetadata client netlifyToken appId sessionId metadata =
     await (call client ''executeUpdateCLISessionMetadataMutation''
              (JObj [(''nfToken'', JStr netlifyToken), (''sessionId'', JStr sessionId),
                     (''metadata'', metadata)])
              (JObj [(''siteId'', JStr appId)]))
       (\<lambda>result.
          let session =
                opt_path (data result) [''oneGraph'', ''updateNetlifyCliSession'', ''session'']
          in resolve session)"

definition ackCLISessionEvents ::
  "generated_client \<Rightarrow> string \<Rightarrow> string \<Rightarrow> string \<Rightarrow> string list \<Rightarrow> js async" where
  "ackCLISessionEvents client appId authToken sessionId eventIds =
     await (call client ''executeAckCLISessionEventMutation''
              (JObj [(''nfToken'', JStr authToken), (''sessionId'', JStr sessionId),
                     (''eventIds'', JArr (map JStr eventIds))])
              (JObj [(''siteId'', JStr appId)]))
       (\<lambda>result.
          let events = opt_path (data result) [''oneGraph'', ''ackNetlifyCliEvents'']
          in resolve events)"

definition createPersistedQuery ::
  "generated_client \<Rightarrow> string \<Rightarrow> string \<Rightarrow> string \<Rightarrow> string \<Rightarrow> string list \<Rightarrow> js async"
  where
  "createPersistedQuery client netlifyToken appId description document tags =
     await (call client ''executeCreatePersistedQueryMutation''
              (JObj [(''nfToken'', JStr netlifyToken), (''appId'', JStr appId),
                     (''query'', JStr document), (''tags'', JArr (map JStr tags)),
                     (''description'', JStr description)])
              (JObj [(''siteId'', JStr appId)]))
       (\<lambda>result.
          let persistedQuery =
                opt_path (data result) [''oneGraph'', ''createPersistedQuery'', ''persistedQuery'']
          in resolve persistedQuery)"

definition fetchAppSchema :: "generated_client \<Rightarrow> string \<Rightarrow> string \<Rightarrow> js async" where
  "fetchAppSchema client authToken siteId =
     await (call client ''fetchAppSchemaQuery''
              (JObj [(''nfToken'', JStr authToken), (''appId'', JStr siteId)])
              (JObj [(''siteId'', JStr siteId)]))
       (\<lambda>result. resolve (opt_path (data result) [''oneGraph'', ''app'', ''graphQLSchema'']))"

definition upsertAppForSite :: "generated_client \<Rightarrow> string \<Rightarrow> string \<Rightarrow> js async" where
  "upsertAppForSite client authToken siteId =
     await (call client ''executeUpsertAppForSiteMutation''
              (JObj [(''nfToken'', JStr authToken), (''siteId'', JStr siteId)])
              (JObj [(''siteId'', JStr ONEDASH_APP_ID)]))
       (\<lambda>result.
          resolve (opt_path (data result) [''oneGraph'', ''upsertAppForNetlifySite'', ''app'']))"

text \<open>
  \<open>createNewAppSchema\<close>: the options argument \<open>{siteId: input.appId}\<close> is evaluated before
  the call, so a null or undefined \<open>input\<close> throws before any request is issued.
\<close>

definition createNewAppSchema :: "generated_client \<Rightarrow> string \<Rightarrow> js \<Rightarrow> js async" where
  "createNewAppSchema client nfToken input =
     await (lift (js_get input ''appId''))
       (\<lambda>input_appId.
          await (call client ''executeCreateNewSchemaMutation''
                   (JObj [(''nfToken'', JStr nfToken), (''input'', input)])
                   (JObj [(''siteId'', input_appId)]))
            (\<lambda>result.
               resolve
                 (opt_path (data result)
                    [''oneGraph'', ''createGraphQLSchema'', ''graphqlSchema''])))"

text \<open>
  \<open>ensureAppForSite\<close>: the three calls pass no options object. The value bound to \<open>schema\<close>
  and tested by \<open>if (!schema)\<close> is the whole envelope of \<open>fetchAppSchemaQuery\<close>. The function
  has no \<open>return\<close>, so it resolves to \<open>undefined\<close>.
\<close>

definition ensureAppForSite :: "generated_client \<Rightarrow> string \<Rightarrow> string \<Rightarrow> js async" where
  "ensureAppForSite client authToken siteId =
     await (call client ''executeUpsertAppForSiteMutation''
              (JObj [(''nfToken'', JStr authToken), (''siteId'', JStr siteId)])
              JUndefined)
       (\<lambda>upsertResult.
          let appId =
                opt_path (data upsertResult)
                  [''oneGraph'', ''upsertAppForNetlifySite'', ''app'', ''id'']
          in
          await (call client ''fetchAppSchemaQuery''
                   (JObj [(''nfToken'', JStr authToken), (''appId'', appId)])
                   JUndefined)
            (\<lambda>schema.
               if \<not> truthy (envelope_value schema) then
                 await (console_log ''Creating new empty default GraphQL schema for site....'')
                   (\<lambda>_.
                      await (call client ''executeCreateNewSchemaMutation''
                               (JObj [(''nfToken'', JStr authToken),
                                      (''input'',
                                       JObj [(''appId'', JStr siteId),
                                             (''enabledServices'', JArr [JStr ''ONEGRAPH'']),
                                             (''setAsDefaultForApp'', JBool True)])])
                               JUndefined)
                        (\<lambda>_. resolve JUndefined))
               else resolve JUndefined))"

definition fetchEnabledServices :: "generated_client \<Rightarrow> string \<Rightarrow> string \<Rightarrow> js async" where
  "fetchEnabledServices client authToken appId =
     await (call client ''fetchAppSchemaQuery''
              (JObj [(''nfToken'', JStr authToken), (''appId'', JStr appId)])
              JUndefined)
       (\<lambda>appSchemaResult.
          resolve
            (opt_path (data appSchemaResult)
               [''oneGraph'', ''app'', ''graphQLSchema'', ''services'']))"

definition executeMarkCliSessionActiveHeartbeat ::
  "generated_client \<Rightarrow> string \<Rightarrow> string \<Rightarrow> string \<Rightarrow> js async" where
  "executeMarkCliSessionActiveHeartbeat client authToken appId sessionId =
     await (call client ''executeMarkCLISessionActiveHeartbeat''
              (JObj [(''nfToken'', JStr authToken), (''id'', JStr sessionId)])
              (JObj [(''siteId'', JStr appId)]))
       (\<lambda>result.
          let session =
                opt_path (data result) [''oneGraph'', ''updateNetlifyCliSession'', ''session'']
          in resolve (JObj [(''errors'', errors result), (''data'', session)]))"

definition executeMarkCliSessionInactive ::
  "generated_client \<Rightarrow> string \<Rightarrow> string \<Rightarrow> string \<Rightarrow> js async" where
  "executeMarkCliSessionInactive client authToken appId sessionId =
     await (call client ''executeMarkCLISessionInactive''
              (JObj [(''nfToken'', JStr authToken), (''id'', JStr sessionId)])
              (JObj [(''siteId'', JStr appId)]))
       (\<lambda>result.
          let session =
                opt_path (data result) [''oneGraph'', ''updateNetlifyCliSession'', ''session'']
          in resolve (JObj [(''errors'', errors result), (''data'', session)]))"

section \<open>Vocabulary of the statements\<close>

text \<open>
  An operation surfaces the errors of the transport when it resolves to an object whose
  \<open>errors\<close> property is exactly the \<open>errors\<close> the RPC returned.
\<close>

definition surfaces_errors :: "exn + js \<Rightarrow> js \<Rightarrow> bool" where
  "surfaces_errors outcome errs =
     (case outcome of Inl e \<Rightarrow> False | Inr ret \<Rightarrow> js_get ret ''errors'' = Inr errs)"

text \<open>
  \<open>test_wrappers h n event inner\<close>: \<open>event\<close> is \<open>inner\<close> inside exactly \<open>n\<close> nested
  \<open>OneGraphNetlifyCliSessionTestEvent\<close> wrappers.
\<close>

fun test_wrappers :: "heap \<Rightarrow> nat \<Rightarrow> jsval \<Rightarrow> jsval \<Rightarrow> bool" where
  "test_wrappers h 0 event inner = (event = inner)"
| "test_wrappers h (Suc n) event inner =
     (case destructure_event h event of
        Inl e \<Rightarrow> False
      | Inr tp \<Rightarrow>
          fst tp = VStr ''OneGraphNetlifyCliSessionTestEvent'' \<and>
          test_wrappers h n (snd tp) inner)"

text \<open>
  An unwrapped event: it can be destructured (it is neither \<open>undefined\<close> nor \<open>null\<close>) and
  its \<open>__typename\<close> is a string other than the test wrapper's.
\<close>

definition unwrapped_event :: "heap \<Rightarrow> jsval \<Rightarrow> bool" where
  "unwrapped_event h event =
     (case destructure_event h event of
        Inl e \<Rightarrow> False
      | Inr tp \<Rightarrow>
          (case fst tp of
             VStr typename \<Rightarrow> typename \<noteq> ''OneGraphNetlifyCliSessionTestEvent''
           | _ \<Rightarrow> False))"

subsection \<open>Concrete inputs\<close>

definition world0 :: world where
  "world0 = \<lparr>rpc_calls = [], console = []\<rparr>"

text \<open>An RPC result that reports an error and carries no data.\<close>

definition failed_response :: envelope where
  "failed_response =
     \<lparr>data = JNull, errors = JArr [JObj [(''message'', JStr ''Unauthorized'')]]\<rparr>"

text \<open>A client whose every request resolves to that result.\<close>

definition failing_client :: generated_client where
  "failing_client request = Inr failed_response"

text \<open>An RPC result of the acknowledgment mutation without errors.\<close>

definition ack_response :: envelope where
  "ack_response =
     \<lparr>data = JObj [(''oneGraph'',
                      JObj [(''ackNetlifyCliEvents'', JObj [(''events'', JArr [])])])],
      errors = JUndefined\<rparr>"

text \<open>\<open>const e = {__typename: "OneGraphNetlifyCliSessionTestEvent"}; e.payload = e\<close>\<close>

definition cyclic_heap :: heap where
  "cyclic_heap =
     (\<lambda>a. [])
       (0 := [(''__typename'', VStr ''OneGraphNetlifyCliSessionTestEvent''),
              (''payload'', VRef 0)])"

text \<open>
  Two test wrappers, each the payload of the other:
  \<open>a = {__typename: T}; b = {__typename: T, payload: a}; a.payload = b\<close>.
\<close>

definition two_cycle_heap :: heap where
  "two_cycle_heap =
     (\<lambda>a. [])
       (0 := [(''__typename'', VStr ''OneGraphNetlifyCliSessionTestEvent''),
              (''payload'', VRef 1)],
        1 := [(''__typename'', VStr ''OneGraphNetlifyCliSessionTestEvent''),
              (''payload'', VRef 0)])"

text \<open>\<open>{__typename: {toString: 1}}\<close>: a \<open>__typename\<close> that cannot be converted to a string.\<close>

definition unprintable_heap :: heap where
  "unprintable_heap =
     (\<lambda>a. [])(0 := [(''__typename'', VRef 1)], 1 := [(''toString'', VNum ''1'')])"

text \<open>\<open>{__typename: "OneGraphNetlifyCliSessionTestEvent"}\<close>, a wrapper without a payload.\<close>

definition bare_wrapper_heap :: heap where
  "bare_wrapper_heap =
     (\<lambda>a. [])(0 := [(''__typename'', VStr ''OneGraphNetlifyCliSessionTestEvent'')])"

text \<open>A library-updated event (address 2) inside two test wrappers (addresses 1 and 0).\<close>

definition chain_heap :: heap where
  "chain_heap =
     (\<lambda>a. [])
       (0 := [(''__typename'', VStr ''OneGraphNetlifyCliSessionTestEvent''),
              (''payload'', VRef 1)],
        1 := [(''__typename'', VStr ''OneGraphNetlifyCliSessionTestEvent''),
              (''payload'', VRef 2)],
        2 := [(''__typename'', VStr ''OneGraphNetlifyCliSessionPersistedLibraryUpdatedEvent'')])"

definition foo_heap :: heap where
  "foo_heap = (\<lambda>a. [])(0 := [(''__typename'', VStr ''FooEvent''), (''payload'', VNull)])"

text \<open>
  Collaborators of a schema fetch against a host that cannot be reached: node-fetch
  rejects with a system error; \<open>JSON.stringify\<close> of the error is abbreviated.
\<close>

definition unreachable_host :: "string \<Rightarrow> exn + string" where
  "unreachable_host url = Inl (Thrown (JObj [(''code'', JStr ''ENOTFOUND'')]))"

definition strict_parse :: "string \<Rightarrow> exn + js" where
  "strict_parse text =
     (if text = ''null'' then Inr JNull
      else Inl (Thrown (JObj [(''name'', JStr ''SyntaxError'')])))"

definition short_stringify :: "exn \<Rightarrow> string" where
  "short_stringify error =
     (case error of TypeError \<Rightarrow> ''{}'' | RangeError \<Rightarrow> ''{}'' | Thrown v \<Rightarrow> ''{...}'')"

definition any_schema :: "js \<Rightarrow> exn + js" where
  "any_schema introspection = Inr introspection"

section \<open>Basic facts\<close>

lemmas async_defs =
  await_def resolve_def lift_def call_def try_catch_def console_error_def console_log_def

lemma truthy_envelope_value: "truthy (envelope_value r)"
  by (simp add: envelope_value_def)

lemma js_or_falsy_default:
  "js_or JUndefined d = d" "js_or JNull d = d" "js_or (JNum 0) d = d"
  by (simp_all add: js_or_def)

lemma friendlyEventName_unwrap:
  "destructure_event h w = Inr (VStr ''OneGraphNetlifyCliSessionTestEvent'', e) \<Longrightarrow>
   friendlyEventName h w = friendlyEventName h e"
  by (subst friendlyEventName.simps) simp

text \<open>What a test wrapper is, for \<open>test_wrappers\<close> one level deep.\<close>

lemma test_wrappers_Suc:
  "test_wrappers h (Suc n) event inner \<longleftrightarrow>
     (\<exists>p. destructure_event h event = Inr (VStr ''OneGraphNetlifyCliSessionTestEvent'', p) \<and>
          test_wrappers h n p inner)"
  by (cases "destructure_event h event") (auto simp del: destructure_event.simps)

lemma on_stack_unwrap:
  "destructure_event h w = Inr (VStr ''OneGraphNetlifyCliSessionTestEvent'', e) \<Longrightarrow>
   friendlyEventName_on_stack (Suc frames) h w = friendlyEventName_on_stack frames h e"
  by (simp del: destructure_event.simps)

text \<open>Each wrapper on the way to the inner event takes one frame.\<close>

lemma on_stack_through_wrappers:
  "test_wrappers h n event inner \<Longrightarrow>
   friendlyEventName_on_stack (n + frames) h event = friendlyEventName_on_stack frames h inner"
proof (induction n arbitrary: event)
  case 0
  then show ?case by simp
next
  case (Suc n)
  then obtain p
    where d: "destructure_event h event = Inr (VStr ''OneGraphNetlifyCliSessionTestEvent'', p)"
      and rest: "test_wrappers h n p inner"
    unfolding test_wrappers_Suc by blast
  have "friendlyEventName_on_stack (Suc n + frames) h event =
        friendlyEventName_on_stack (n + frames) h p"
    using on_stack_unwrap [OF d] by simp
  with Suc.IH [OF rest] show ?case
    by simp
qed

text \<open>With room for no more frames than there are wrappers, the stack overflows.\<close>

lemma on_stack_overflow:
  "test_wrappers h n event inner \<Longrightarrow> frames \<le> n \<Longrightarrow>
   friendlyEventName_on_stack frames h event = Inl RangeError"
proof (induction frames arbitrary: n event)
  case 0
  then show ?case by simp
next
  case (Suc frames)
  then obtain m where n: "n = Suc m" and le: "frames \<le> m"
    by (cases n) auto
  from Suc.prems(1) have "test_wrappers h (Suc m) event inner"
    unfolding n .
  then obtain p
    where d: "destructure_event h event = Inr (VStr ''OneGraphNetlifyCliSessionTestEvent'', p)"
      and rest: "test_wrappers h m p inner"
    unfolding test_wrappers_Suc by blast
  from on_stack_unwrap [OF d] Suc.IH [OF rest le] show ?case
    by simp
qed

lemma on_stack_of_unwrapped:
  assumes "unwrapped_event h event"
  shows "\<exists>label. \<forall>frames. friendlyEventName_on_stack (Suc frames) h event = Inr label"
proof -
  from assms obtain typename p
    where d: "destructure_event h event = Inr (VStr typename, p)"
      and t: "typename \<noteq> ''OneGraphNetlifyCliSessionTestEvent''"
    unfolding unwrapped_event_def
    by (auto split: sum.splits jsval.splits simp del: destructure_event.simps)
  show ?thesis
    using d t by (auto simp del: destructure_event.simps)
qed

text \<open>
  A result of the bounded run other than the stack overflow is the result of the run
  on the unbounded stack.
\<close>

lemma on_stack_agrees:
  "friendlyEventName_on_stack frames h event = r \<Longrightarrow> r \<noteq> Inl RangeError \<Longrightarrow>
   friendlyEventName h event = Some r"
proof (induction frames arbitrary: event)
  case 0
  then show ?case by simp
next
  case (Suc frames)
  show ?case
  proof (cases "destructure_event h event")
    case (Inl e)
    with Suc.prems show ?thesis
      by (subst friendlyEventName.simps) (simp del: destructure_event.simps)
  next
    case (Inr tp)
    show ?thesis
    proof (cases "fst tp = VStr ''OneGraphNetlifyCliSessionTestEvent''")
      case True
      with Inr Suc.prems have "friendlyEventName_on_stack frames h (snd tp) = r"
        by (simp del: destructure_event.simps)
      from Suc.IH [OF this Suc.prems(2)] Inr True show ?thesis
        by (subst friendlyEventName.simps) (simp del: destructure_event.simps)
    next
      case False
      with Inr Suc.prems show ?thesis
        by (subst friendlyEventName.simps)
          (auto simp del: destructure_event.simps split: sum.splits)
    qed
  qed
qed

text \<open>
  A cycle of test wrappers: \<open>loop\<close> is reached again from itself through at least one
  wrapper. Every event on the way to \<open>loop\<close> is then a test wrapper whose payload is on
  the way to \<open>loop\<close> as well.
\<close>

lemma cycle_step:
  assumes cyc: "test_wrappers h (Suc k) loop loop"
    and on_way: "\<exists>j. test_wrappers h j u loop"
  shows "\<exists>p. destructure_event h u = Inr (VStr ''OneGraphNetlifyCliSessionTestEvent'', p) \<and>
             (\<exists>j. test_wrappers h j p loop)"
proof -
  from on_way obtain j where j: "test_wrappers h j u loop" ..
  show ?thesis
  proof (cases j)
    case 0
    with j have "u = loop" by simp
    with cyc show ?thesis
      unfolding test_wrappers_Suc by blast
  next
    case (Suc j')
    from j have "test_wrappers h (Suc j') u loop"
      unfolding Suc .
    then show ?thesis
      unfolding test_wrappers_Suc by blast
  qed
qed

text \<open>On a cycle the bounded run uses up every frame it is given.\<close>

lemma on_stack_cycle:
  assumes cyc: "test_wrappers h (Suc k) loop loop"
  shows "(\<exists>j. test_wrappers h j u loop) \<Longrightarrow>
         friendlyEventName_on_stack frames h u = Inl RangeError"
proof (induction frames arbitrary: u)
  case 0
  then show ?case by simp
next
  case (Suc frames)
  from cycle_step [OF cyc Suc.prems] obtain p
    where d: "destructure_event h u = Inr (VStr ''OneGraphNetlifyCliSessionTestEvent'', p)"
      and p: "\<exists>j. test_wrappers h j p loop"
    by blast
  from on_stack_unwrap [OF d] Suc.IH [OF p] show ?case
    by simp
qed

text \<open>
  On a cycle no call on the unbounded stack returns: any result \<open>Some y\<close> of a call on an
  event of the cycle would have to come from the call on its payload, one level deeper
  and again on the cycle.
\<close>

lemma friendlyEventName_cycle:
  assumes cyc: "test_wrappers h (Suc k) loop loop"
    and on_way: "\<exists>j. test_wrappers h j u loop"
  shows "friendlyEventName h u = None"
proof (cases "friendlyEventName h u")
  case None
  then show ?thesis .
next
  case (Some y)
  have "\<not> (h = h \<and> (\<exists>j. test_wrappers h j u loop))"
    apply (rule friendlyEventName.raw_induct
        [where P = "\<lambda>h' u' y. \<not> (h' = h \<and> (\<exists>j. test_wrappers h j u' loop))", OF _ Some])
    subgoal premises prems for f h' u' y'
    proof
      assume a: "h' = h \<and> (\<exists>j. test_wrappers h j u' loop)"
      then obtain p
        where d: "destructure_event h u' = Inr (VStr ''OneGraphNetlifyCliSessionTestEvent'', p)"
          and p: "\<exists>j. test_wrappers h j p loop"
        using cycle_step [OF cyc] by blast
      from prems(2) a d have "f h p = Some y'"
        by (simp del: destructure_event.simps)
      from prems(1) [OF this] p show False
        by simp
    qed
    done
  with on_way show ?thesis
    by simp
qed

text \<open>A test wrapper without a payload: the recursive call destructures \<open>undefined\<close>.\<close>

lemma friendlyEventName_bare_wrapper:
  "friendlyEventName bare_wrapper_heap (VRef 0) = Some (Inl TypeError)"
  by (simp add: friendlyEventName.simps bare_wrapper_heap_def own_property_def)

text \<open>
  A \<open>__typename\<close> that is an object with an own \<open>toString\<close> property: the template
  literal of the default case throws.
\<close>

lemma friendlyEventName_unprintable_typename:
  "friendlyEventName unprintable_heap (VRef 0) = Some (Inl TypeError)"
  by (simp add: friendlyEventName.simps unprintable_heap_def own_property_def)

section \<open>Errors of the transport\<close>

text \<open>
  Claim C1, as stated: every operation other than the schema fetch surfaces a non-empty
  \<open>errors\<close> array of the RPC result in its return value. It fails for
  \<open>ackCLISessionEvents\<close>: on a result with \<open>data: null\<close> and one error the function
  resolves to \<open>undefined\<close>, which carries no errors.
\<close>

theorem ackCLISessionEvents_drops_errors:
  "errors failed_response = JArr [JObj [(''message'', JStr ''Unauthorized'')]] \<and>
   fst (ackCLISessionEvents failing_client ''site'' ''token'' ''session'' [''event-1''] world0) =
     Inr JUndefined \<and>
   \<not> surfaces_errors
       (fst (ackCLISessionEvents failing_client ''site'' ''token'' ''session'' [''event-1''] world0))
       (errors failed_response)"
  by (simp add: surfaces_errors_def ackCLISessionEvents_def async_defs failed_response_def
      failing_client_def opt_path_def opt_chain_def world0_def)

text \<open>
  Claim C1, amended: when the RPC result holds an \<open>errors\<close> array, the operations that
  return an object with an \<open>errors\<close> property (\<open>fetchCliSession\<close>, \<open>fetchCliSessionEvents\<close>,
  \<open>executeMarkCliSessionActiveHeartbeat\<close>, \<open>executeMarkCliSessionInactive\<close>) surface that
  array unmodified. The other operations (\<open>ackCLISessionEvents\<close>, \<open>fetchPersistedQuery\<close>,
  \<open>createCLISession\<close>, \<open>updateCLISessionMetadata\<close>, \<open>createPersistedQuery\<close>,
  \<open>fetchAppSchema\<close>, \<open>upsertAppForSite\<close>, \<open>fetchEnabledServices\<close>) resolve to the payload
  unwrapped from \<open>data\<close> alone and do not surface the errors.
\<close>

theorem errors_surfaced_by_envelope_returning_operations_only:
  assumes "errors r = JArr es"
  shows
    "surfaces_errors
       (fst (fetchCliSession (\<lambda>request. Inr r) appId authToken sessionId count w)) (JArr es) \<and>
     surfaces_errors
       (fst (fetchCliSessionEvents (\<lambda>request. Inr r) appId authToken sessionId w)) (JArr es) \<and>
     surfaces_errors
       (fst (executeMarkCliSessionActiveHeartbeat (\<lambda>request. Inr r) authToken appId sessionId w))
       (JArr es) \<and>
     surfaces_errors
       (fst (executeMarkCliSessionInactive (\<lambda>request. Inr r) authToken appId sessionId w))
       (JArr es) \<and>
     fst (ackCLISessionEvents (\<lambda>request. Inr r) appId authToken sessionId eventIds w) =
       Inr (opt_path (data r) [''oneGraph'', ''ackNetlifyCliEvents'']) \<and>
     fst (fetchPersistedQuery (\<lambda>request. Inr r) authToken appId docId w) =
       Inr (opt_path (data r) [''oneGraph'', ''persistedQuery'']) \<and>
     fst (createCLISession (\<lambda>request. Inr r) authToken appId name metadata w) =
       Inr (opt_path (data r) [''oneGraph'', ''createNetlifyCliSession'', ''session'']) \<and>
     fst (updateCLISessionMetadata (\<lambda>request. Inr r) authToken appId sessionId metadata w) =
       Inr (opt_path (data r) [''oneGraph'', ''updateNetlifyCliSession'', ''session'']) \<and>
     fst (createPersistedQuery (\<lambda>request. Inr r) authToken appId description document tags w) =
       Inr (opt_path (data r) [''oneGraph'', ''createPersistedQuery'', ''persistedQuery'']) \<and>
     fst (fetchAppSchema (\<lambda>request. Inr r) authToken appId w) =
       Inr (opt_path (data r) [''oneGraph'', ''app'', ''graphQLSchema'']) \<and>
     fst (upsertAppForSite (\<lambda>request. Inr r) authToken appId w) =
       Inr (opt_path (data r) [''oneGraph'', ''upsertAppForNetlifySite'', ''app'']) \<and>
     fst (fetchEnabledServices (\<lambda>request. Inr r) authToken appId w) =
       Inr (opt_path (data r) [''oneGraph'', ''app'', ''graphQLSchema'', ''services''])"
  using assms
  by (simp add: surfaces_errors_def fetchCliSession_def fetchCliSessionEvents_def
      executeMarkCliSessionActiveHeartbeat_def executeMarkCliSessionInactive_def
      ackCLISessionEvents_def fetchPersistedQuery_def createCLISession_def
      updateCLISessionMetadata_def createPersistedQuery_def fetchAppSchema_def
      upsertAppForSite_def fetchEnabledServices_def async_defs Let_def)

theorem errors_surfaced_by_envelope_returning_operations_only_witness:
  "errors failed_response = JArr [JObj [(''message'', JStr ''Unauthorized'')]] \<and>
   fst (executeMarkCliSessionInactive (\<lambda>request. Inr failed_response) ''token'' ''site''
          ''session'' world0) =
     Inr (JObj [(''errors'', JArr [JObj [(''message'', JStr ''Unauthorized'')]]),
                (''data'', JUndefined)]) \<and>
   surfaces_errors
     (fst (executeMarkCliSessionInactive (\<lambda>request. Inr failed_response) ''token'' ''site''
             ''session'' world0))
     (JArr [JObj [(''message'', JStr ''Unauthorized'')]]) \<and>
   fst (fetchPersistedQuery (\<lambda>request. Inr failed_response) ''token'' ''site'' ''doc'' world0) =
     Inr JUndefined"
  using errors_surfaced_by_envelope_returning_operations_only
    [of failed_response "[JObj [(''message'', JStr ''Unauthorized'')]]"
        "''site''" "''token''" "''session''" JUndefined world0 "[]" "''doc''"]
  by (simp add: failed_response_def executeMarkCliSessionInactive_def async_defs world0_def
      opt_path_def opt_chain_def)

section \<open>The requested event count\<close>

text \<open>
  Claim C2 says that \<open>fetchCliSession\<close> requests 1000 events when
  \<open>options.desiredEventCount\<close> is omitted or 0. The code evaluates
  \<open>options.desiredEventCount || 1\<close> first, so the later \<open>desiredEventCount || 1000\<close> never
  takes its right-hand side: the \<open>first\<close> variable of the request is 1 in both cases,
  whatever the client answers.
\<close>

theorem fetchCliSession_falsy_count_requests_one:
  "rpc_calls (snd (fetchCliSession client appId authToken sessionId JUndefined w)) =
     rpc_calls w @
       [\<lparr>operation = ''fetchCLISessionQuery'',
         variables = JObj [(''nfToken'', JStr authToken), (''sessionId'', JStr sessionId),
                           (''first'', JNum 1)],
         options = JObj [(''siteId'', JStr appId)]\<rparr>] \<and>
   rpc_calls (snd (fetchCliSession client appId authToken sessionId (JNum 0) w)) =
     rpc_calls w @
       [\<lparr>operation = ''fetchCLISessionQuery'',
         variables = JObj [(''nfToken'', JStr authToken), (''sessionId'', JStr sessionId),
                           (''first'', JNum 1)],
         options = JObj [(''siteId'', JStr appId)]\<rparr>]"
  by (simp add: fetchCliSession_def async_defs Let_def js_or_def split: sum.splits)

section \<open>Events of an error response\<close>

text \<open>
  Claim C3: when the RPC result holds an \<open>errors\<close> array (empty or not),
  \<open>fetchCliSessionEvents\<close> does not throw; it resolves to the object \<open>{session, errors}\<close>
  built by \<open>fetchCliSession\<close>, whose \<open>errors\<close> property is that array and which has no
  \<open>events\<close> property (reading it gives \<open>undefined\<close>). No event is extracted from such a
  response.
\<close>

theorem fetchCliSessionEvents_error_response:
  assumes "errors r = JArr es"
  shows
    "\<exists>ret.
       fst (fetchCliSessionEvents (\<lambda>request. Inr r) appId authToken sessionId w) = Inr ret \<and>
       ret = JObj [(''session'',
                    js_or (opt_path (data r) [''oneGraph'', ''netlifyCliSession'']) (JArr [])),
                   (''errors'', JArr es)] \<and>
       js_get ret ''errors'' = Inr (JArr es) \<and>
       js_get ret ''events'' = Inr JUndefined"
  using assms by (simp add: fetchCliSessionEvents_def fetchCliSession_def async_defs Let_def)

theorem fetchCliSessionEvents_error_response_witness:
  "errors failed_response = JArr [JObj [(''message'', JStr ''Unauthorized'')]] \<and>
   (\<exists>ret.
      fst (fetchCliSessionEvents (\<lambda>request. Inr failed_response) ''site'' ''token'' ''session''
             world0) = Inr ret \<and>
      ret = JObj [(''session'', JArr []),
                  (''errors'', JArr [JObj [(''message'', JStr ''Unauthorized'')]])] \<and>
      js_get ret ''errors'' = Inr (JArr [JObj [(''message'', JStr ''Unauthorized'')]]) \<and>
      js_get ret ''events'' = Inr JUndefined)"
  using fetchCliSessionEvents_error_response
    [of failed_response "[JObj [(''message'', JStr ''Unauthorized'')]]"
        "''site''" "''token''" "''session''" world0]
  by (simp add: failed_response_def js_or_def opt_path_def opt_chain_def)

section \<open>The schema fetch\<close>

text \<open>
  Claim C4: when the HTTP fetch of the schema fails, or the body it returns does not
  parse as JSON, \<open>fetchOneGraphSchemaJson\<close> resolves to \<open>undefined\<close> instead of rejecting,
  and writes exactly one entry to the error sink (and issues no RPC).
\<close>

theorem fetchOneGraphSchemaJson_swallows_failure:
  assumes "fetch_text (schema_url appId enabledServices) = Inl error \<or>
           (\<exists>text. fetch_text (schema_url appId enabledServices) = Inr text \<and>
                   JSON_parse text = Inl error)"
  shows "fetchOneGraphSchemaJson fetch_text JSON_parse JSON_stringify appId enabledServices w =
           (Inr JUndefined,
            w\<lparr>console := console w @
                 [ConsoleError (''Error fetching schema: '' @ JSON_stringify error)]\<rparr>)"
  using assms by (auto simp add: fetchOneGraphSchemaJson_def async_defs Let_def)

theorem fetchOneGraphSchemaJson_swallows_failure_witness:
  "(unreachable_host (schema_url ''site'' [''ONEGRAPH'', ''GITHUB'']) =
      Inl (Thrown (JObj [(''code'', JStr ''ENOTFOUND'')])) \<or>
    (\<exists>text. unreachable_host (schema_url ''site'' [''ONEGRAPH'', ''GITHUB'']) = Inr text \<and>
            strict_parse text = Inl (Thrown (JObj [(''code'', JStr ''ENOTFOUND'')])))) \<and>
   fetchOneGraphSchemaJson unreachable_host strict_parse short_stringify ''site''
     [''ONEGRAPH'', ''GITHUB''] world0 =
     (Inr JUndefined,
      \<lparr>rpc_calls = [], console = [ConsoleError ''Error fetching schema: {...}'']\<rparr>)"
  using fetchOneGraphSchemaJson_swallows_failure
    [of unreachable_host "''site''" "[''ONEGRAPH'', ''GITHUB'']"
        "Thrown (JObj [(''code'', JStr ''ENOTFOUND'')])" strict_parse short_stringify world0]
  by (simp add: unreachable_host_def short_stringify_def world0_def)

text \<open>
  Claim C9: whenever \<open>fetchOneGraphSchemaJson\<close> resolves to \<open>undefined\<close>,
  \<open>fetchOneGraphSchema\<close> on the same arguments returns no schema: reading \<open>result.data\<close>
  throws a \<open>TypeError\<close>, and \<open>buildClientSchema\<close> is not reached.
\<close>

theorem fetchOneGraphSchema_throws_on_undefined_json:
  assumes "fst (fetchOneGraphSchemaJson fetch_text JSON_parse JSON_stringify appId
                  enabledServices w) = Inr JUndefined"
  shows "fst (fetchOneGraphSchema fetch_text JSON_parse JSON_stringify buildClientSchema appId
                enabledServices w) = Inl TypeError"
  using assms
  by (auto simp add: fetchOneGraphSchema_def await_def lift_def split: prod.splits sum.splits)

theorem fetchOneGraphSchema_throws_on_undefined_json_witness:
  "fst (fetchOneGraphSchemaJson unreachable_host strict_parse short_stringify ''site''
          [''ONEGRAPH''] world0) = Inr JUndefined \<and>
   fst (fetchOneGraphSchema unreachable_host strict_parse short_stringify any_schema ''site''
          [''ONEGRAPH''] world0) = Inl TypeError"
  using fetchOneGraphSchema_throws_on_undefined_json
    [of unreachable_host strict_parse short_stringify "''site''" "[''ONEGRAPH'']" world0
        any_schema]
  by (simp add: fetchOneGraphSchemaJson_def async_defs unreachable_host_def)

section \<open>Describing events\<close>

text \<open>
  Claim C5, as stated: \<open>friendlyEventName\<close> returns a string for every event, cyclic
  chains of test wrappers included, because the implementation guards the recursion.
  The function has no guard: on a test wrapper that is its own payload no call returns.
\<close>

theorem friendlyEventName_cyclic_wrapper_never_returns:
  "friendlyEventName cyclic_heap (VRef 0) = None"
proof (rule friendlyEventName_cycle [where k = 0 and loop = "VRef 0"])
  show "test_wrappers cyclic_heap (Suc 0) (VRef 0) (VRef 0)"
    by (simp add: cyclic_heap_def own_property_def)
  then show "\<exists>j. test_wrappers cyclic_heap j (VRef 0) (VRef 0)" ..
qed

text \<open>
  Claim C5, amended. Let \<open>event\<close> consist of \<open>n\<close> nested test wrappers around an inner
  event that is neither \<open>undefined\<close> nor \<open>null\<close> and whose \<open>__typename\<close> is a string other
  than the test wrapper's. Then \<open>friendlyEventName\<close> returns a string, the label it gives
  the inner event, whenever the call stack has room for more than \<open>n\<close> nested activations
  of the function, and throws a \<open>RangeError\<close> when it has room for \<open>n\<close> or fewer: the
  recursion is bounded by the stack alone, the code has no depth cap. Nor does it detect
  cycles: on an event that lies on a cycle of test wrappers of any length, or leads to
  one through test wrappers, it returns no string, whatever the room; the call ends in a
  \<open>RangeError\<close>, and on a stack without bound it would not return at all.
\<close>

theorem friendlyEventName_bounded_by_stack_only:
  "(test_wrappers h n event inner \<and> unwrapped_event h inner \<longrightarrow>
      (\<exists>label.
         friendlyEventName_on_stack (Suc 0) h inner = Inr label \<and>
         (\<forall>frames.
            (n < frames \<longrightarrow> friendlyEventName_on_stack frames h event = Inr label) \<and>
            (frames \<le> n \<longrightarrow>
               friendlyEventName_on_stack frames h event = Inl RangeError)))) \<and>
   (test_wrappers h (Suc k) loop loop \<and> test_wrappers h j start loop \<longrightarrow>
      friendlyEventName h start = None \<and>
      (\<forall>frames. friendlyEventName_on_stack frames h start = Inl RangeError))"
proof (intro conjI impI)
  assume a: "test_wrappers h n event inner \<and> unwrapped_event h inner"
  then have chain: "test_wrappers h n event inner" and inner: "unwrapped_event h inner"
    by blast+
  from on_stack_of_unwrapped [OF inner] obtain label
    where label: "\<And>frames. friendlyEventName_on_stack (Suc frames) h inner = Inr label"
    by blast
  have returns: "friendlyEventName_on_stack frames h event = Inr label" if "n < frames" for frames
  proof -
    from that obtain m where "frames = Suc (n + m)"
      using less_imp_Suc_add by blast
    then have frames: "frames = n + Suc m"
      by simp
    have "friendlyEventName_on_stack (n + Suc m) h event =
          friendlyEventName_on_stack (Suc m) h inner"
      by (rule on_stack_through_wrappers [OF chain])
    also have "\<dots> = Inr label"
      by (rule label)
    finally show ?thesis
      unfolding frames .
  qed
  have overflows: "friendlyEventName_on_stack frames h event = Inl RangeError"
    if "frames \<le> n" for frames
    by (rule on_stack_overflow [OF chain that])
  show "\<exists>label.
         friendlyEventName_on_stack (Suc 0) h inner = Inr label \<and>
         (\<forall>frames.
            (n < frames \<longrightarrow> friendlyEventName_on_stack frames h event = Inr label) \<and>
            (frames \<le> n \<longrightarrow>
               friendlyEventName_on_stack frames h event = Inl RangeError))"
  proof (intro exI allI conjI impI)
    show "friendlyEventName_on_stack (Suc 0) h inner = Inr label"
      by (rule label)
  next
    fix frames
    assume "n < frames"
    then show "friendlyEventName_on_stack frames h event = Inr label"
      by (rule returns)
  next
    fix frames
    assume "frames \<le> n"
    then show "friendlyEventName_on_stack frames h event = Inl RangeError"
      by (rule overflows)
  qed
next
  assume b: "test_wrappers h (Suc k) loop loop \<and> test_wrappers h j start loop"
  then have cyc: "test_wrappers h (Suc k) loop loop"
    and on_way: "\<exists>j. test_wrappers h j start loop"
    by blast+
  show "friendlyEventName h start = None"
    by (rule friendlyEventName_cycle [OF cyc on_way])
  show "\<forall>frames. friendlyEventName_on_stack frames h start = Inl RangeError"
  proof
    fix frames
    show "friendlyEventName_on_stack frames h start = Inl RangeError"
      by (rule on_stack_cycle [OF cyc on_way])
  qed
qed

theorem friendlyEventName_bounded_by_stack_only_witness:
  "test_wrappers chain_heap (Suc (Suc 0)) (VRef 0) (VRef 2) \<and>
   unwrapped_event chain_heap (VRef 2) \<and>
   friendlyEventName_on_stack (Suc (Suc (Suc 0))) chain_heap (VRef 0) =
     Inr ''Sync Netlify Graph operations library'' \<and>
   friendlyEventName_on_stack (Suc (Suc 0)) chain_heap (VRef 0) = Inl RangeError \<and>
   test_wrappers two_cycle_heap (Suc (Suc 0)) (VRef 0) (VRef 0) \<and>
   test_wrappers two_cycle_heap (Suc 0) (VRef 1) (VRef 0) \<and>
   friendlyEventName two_cycle_heap (VRef 1) = None \<and>
   friendlyEventName_on_stack (Suc (Suc (Suc 0))) two_cycle_heap (VRef 1) = Inl RangeError"
proof -
  have chain: "test_wrappers chain_heap (Suc (Suc 0)) (VRef 0) (VRef 2)"
    by (simp add: chain_heap_def own_property_def)
  have inner: "unwrapped_event chain_heap (VRef 2)"
    by (simp add: chain_heap_def unwrapped_event_def own_property_def)
  have cycle: "test_wrappers two_cycle_heap (Suc (Suc 0)) (VRef 0) (VRef 0)"
    by (simp add: two_cycle_heap_def own_property_def)
  have leads: "test_wrappers two_cycle_heap (Suc 0) (VRef 1) (VRef 0)"
    by (simp add: two_cycle_heap_def own_property_def)
  from friendlyEventName_bounded_by_stack_only
      [of chain_heap "Suc (Suc 0)" "VRef 0" "VRef 2" 0 "VRef 0" 0 "VRef 0"] chain inner
  obtain label where label:
    "\<And>frames.
       (Suc (Suc 0) < frames \<longrightarrow>
          friendlyEventName_on_stack frames chain_heap (VRef 0) = Inr label) \<and>
       (frames \<le> Suc (Suc 0) \<longrightarrow>
          friendlyEventName_on_stack frames chain_heap (VRef 0) = Inl RangeError)"
    by blast
  have overflow: "friendlyEventName_on_stack (Suc (Suc 0)) chain_heap (VRef 0) = Inl RangeError"
    using label [of "Suc (Suc 0)"] by blast
  have "friendlyEventName_on_stack (Suc (Suc (Suc 0))) chain_heap (VRef 0) = Inr label"
    using label [of "Suc (Suc (Suc 0))"] by blast
  then have returns:
    "friendlyEventName_on_stack (Suc (Suc (Suc 0))) chain_heap (VRef 0) =
       Inr ''Sync Netlify Graph operations library''"
    by (simp add: chain_heap_def own_property_def)
  from friendlyEventName_bounded_by_stack_only
      [of two_cycle_heap 0 "VRef 0" "VRef 0" "Suc 0" "VRef 0" "Suc 0" "VRef 1"] cycle leads
  have loops:
    "friendlyEventName two_cycle_heap (VRef 1) = None \<and>
     (\<forall>frames. friendlyEventName_on_stack frames two_cycle_heap (VRef 1) = Inl RangeError)"
    by blast
  then have "friendlyEventName_on_stack (Suc (Suc (Suc 0))) two_cycle_heap (VRef 1) =
      Inl RangeError"
    by blast
  with chain inner cycle leads overflow returns loops show ?thesis
    by blast
qed

text \<open>
  Claim C6: for an event whose \<open>__typename\<close> is \<open>OneGraphNetlifyCliSessionTestEvent\<close> and
  whose payload is \<open>e\<close>, \<open>friendlyEventName\<close> gives exactly what it gives for \<open>e\<close> itself
  (the same string, and likewise the same failure when \<open>e\<close> has none).
\<close>

theorem friendlyEventName_test_event_is_payload:
  assumes "own_property (h a) ''__typename'' = VStr ''OneGraphNetlifyCliSessionTestEvent''"
    and "own_property (h a) ''payload'' = e"
  shows "friendlyEventName h (VRef a) = friendlyEventName h e"
  using assms by (subst friendlyEventName.simps) simp

theorem friendlyEventName_test_event_is_payload_witness:
  "own_property (chain_heap 1) ''__typename'' = VStr ''OneGraphNetlifyCliSessionTestEvent'' \<and>
   own_property (chain_heap 1) ''payload'' = VRef 2 \<and>
   friendlyEventName chain_heap (VRef 1) = friendlyEventName chain_heap (VRef 2) \<and>
   friendlyEventName chain_heap (VRef 2) =
     Some (Inr ''Sync Netlify Graph operations library'')"
  using friendlyEventName_test_event_is_payload [of chain_heap 1 "VRef 2"]
  by (simp add: chain_heap_def own_property_def friendlyEventName.simps [of _ "VRef 2"])

text \<open>
  Claim C7: for an event whose \<open>__typename\<close> is a string that is none of the three
  kinds the \<open>switch\<close> knows (such as \<open>FooEvent\<close>), \<open>friendlyEventName\<close> does not throw
  and returns \<open>Unrecognized event (...)\<close> with the raw \<open>__typename\<close> between the
  parentheses.
\<close>

theorem friendlyEventName_unrecognized:
  assumes "destructure_event h event = Inr (VStr typename, payload)"
    and "typename \<noteq> ''OneGraphNetlifyCliSessionTestEvent''"
    and "typename \<noteq> ''OneGraphNetlifyCliSessionGenerateHandlerEvent''"
    and "typename \<noteq> ''OneGraphNetlifyCliSessionPersistedLibraryUpdatedEvent''"
  shows "friendlyEventName h event =
           Some (Inr (''Unrecognized event ('' @ typename @ '')''))"
  using assms by (subst friendlyEventName.simps) simp

theorem friendlyEventName_unrecognized_witness:
  "destructure_event foo_heap (VRef 0) = Inr (VStr ''FooEvent'', VNull) \<and>
   ''FooEvent'' \<noteq> ''OneGraphNetlifyCliSessionTestEvent'' \<and>
   ''FooEvent'' \<noteq> ''OneGraphNetlifyCliSessionGenerateHandlerEvent'' \<and>
   ''FooEvent'' \<noteq> ''OneGraphNetlifyCliSessionPersistedLibraryUpdatedEvent'' \<and>
   friendlyEventName foo_heap (VRef 0) = Some (Inr ''Unrecognized event (FooEvent)'')"
  using friendlyEventName_unrecognized [of foo_heap "VRef 0" "''FooEvent''" VNull]
  by (simp add: foo_heap_def own_property_def)

section \<open>Acknowledging events\<close>

text \<open>
  Claim C8: \<open>ackCLISessionEvents\<close> with an empty \<open>eventIds\<close> does not return early: it
  issues exactly one request, the acknowledgment mutation with \<open>eventIds = []\<close>, and when
  that request resolves the function returns normally, with the \<open>ackNetlifyCliEvents\<close>
  payload of the result.
\<close>

theorem ackCLISessionEvents_empty_round_trip:
  "rpc_calls (snd (ackCLISessionEvents client appId authToken sessionId [] w)) =
     rpc_calls w @
       [\<lparr>operation = ''executeAckCLISessionEventMutation'',
         variables = JObj [(''nfToken'', JStr authToken), (''sessionId'', JStr sessionId),
                           (''eventIds'', JArr [])],
         options = JObj [(''siteId'', JStr appId)]\<rparr>] \<and>
   (\<forall>result.
      client
        \<lparr>operation = ''executeAckCLISessionEventMutation'',
         variables = JObj [(''nfToken'', JStr authToken), (''sessionId'', JStr sessionId),
                           (''eventIds'', JArr [])],
         options = JObj [(''siteId'', JStr appId)]\<rparr> = Inr result \<longrightarrow>
      fst (ackCLISessionEvents client appId authToken sessionId [] w) =
        Inr (opt_path (data result) [''oneGraph'', ''ackNetlifyCliEvents'']))"
  by (auto simp add: ackCLISessionEvents_def async_defs Let_def split: sum.splits)

theorem ackCLISessionEvents_empty_round_trip_witness:
  "(\<lambda>request. Inr ack_response)
     \<lparr>operation = ''executeAckCLISessionEventMutation'',
      variables = JObj [(''nfToken'', JStr ''token''), (''sessionId'', JStr ''session''),
                        (''eventIds'', JArr [])],
      options = JObj [(''siteId'', JStr ''site'')]\<rparr> = (Inr ack_response :: exn + envelope) \<and>
   rpc_calls (snd (ackCLISessionEvents (\<lambda>request. Inr ack_response) ''site'' ''token''
                     ''session'' [] world0)) =
     [\<lparr>operation = ''executeAckCLISessionEventMutation'',
       variables = JObj [(''nfToken'', JStr ''token''), (''sessionId'', JStr ''session''),
                         (''eventIds'', JArr [])],
       options = JObj [(''siteId'', JStr ''site'')]\<rparr>] \<and>
   fst (ackCLISessionEvents (\<lambda>request. Inr ack_response) ''site'' ''token'' ''session'' []
          world0) = Inr (JObj [(''events'', JArr [])])"
  using ackCLISessionEvents_empty_round_trip
    [of "\<lambda>request. Inr ack_response" "''site''" "''token''" "''session''" world0]
  by (simp add: ack_response_def world0_def opt_path_def opt_chain_def)

section \<open>Ensuring an app for a site\<close>

text \<open>
  Claim C10: in \<open>ensureAppForSite\<close> the branch that creates a default schema is never
  taken, whatever the client answers. The guard \<open>!schema\<close> tests the envelope of
  \<open>fetchAppSchemaQuery\<close>, an object, which is truthy. So the function issues the upsert
  mutation, then (when that resolved) the schema query, and nothing else: no
  \<open>executeCreateNewSchemaMutation\<close> request, and no entry in the log.
\<close>

theorem ensureAppForSite_never_creates_schema:
  "(map operation (rpc_calls (snd (ensureAppForSite client authToken siteId w))) =
      map operation (rpc_calls w) @ [''executeUpsertAppForSiteMutation''] \<or>
    map operation (rpc_calls (snd (ensureAppForSite client authToken siteId w))) =
      map operation (rpc_calls w) @
        [''executeUpsertAppForSiteMutation'', ''fetchAppSchemaQuery'']) \<and>
   console (snd (ensureAppForSite client authToken siteId w)) = console w"
  by (auto simp add: ensureAppForSite_def async_defs Let_def truthy_envelope_value
      split: sum.splits)

end
